theory Spec2Isabelle
  imports Main "HOL-Library.AList"
begin

section \<open>Exceptions, dynamic values and the remote service\<close>

text \<open>
  The module \<^verbatim>\<open>utils.py\<close> holds three functions. Two of them talk to the NCBI
  Entrez service, the third reshapes a dataframe and builds a chart. Every raise of the
  Python code is a value of \<open>exn\<close>; a function that may raise returns \<open>exn + 'a\<close>.

  \<open>HTTPError\<close> carries the status code. \<open>URLError\<close> is the parent class of
  \<open>HTTPError\<close> in \<^verbatim>\<open>urllib.error\<close>: a handler for \<open>HTTPError\<close> does not catch it.
\<close>

datatype exn =
    HTTPError nat
  | URLError string
  | IndexError
  | KeyError string
  | ValueError string
  | ColumnNotFoundError string
  | DuplicateError string
  | ArrowTypeError string
  | OverflowError string
  | InvalidOperationError string

fun is_HTTPError :: "exn \<Rightarrow> bool" where
  "is_HTTPError (HTTPError _) = True"
| "is_HTTPError _ = False"

fun is_IndexError :: "exn \<Rightarrow> bool" where
  "is_IndexError IndexError = True"
| "is_IndexError _ = False"

text \<open>
  \<^verbatim>\<open>get_taxon_id\<close> returns either a string or the list stored under \<^verbatim>\<open>'IdList'\<close>:
  the two shapes of a Python value that occur there.
\<close>

datatype pyval = PyStr string | PyList "string list"

text \<open>
  A parsed Entrez record is a dictionary. The search record maps keys to values of either
  shape, a summary record maps keys to strings.
\<close>

type_synonym search_record = "string \<rightharpoonup> pyval"
type_synonym summary_record = "string \<rightharpoonup> string"

record esearch_request =
  es_db :: string
  es_term :: string
  es_retmax :: nat

record esummary_request =
  sm_db :: string
  sm_id :: string
  sm_retmax :: nat

text \<open>
  The remote service is not part of the module: it is a parameter. One call stands for
  the body of the \<^verbatim>\<open>with\<close> statement, that is the request followed by
  \<^verbatim>\<open>Entrez.read(handle)\<close>. The service has a state \<open>'w\<close> of its own (the world), which
  every request may change; the answer is the parsed response or a raised exception.
\<close>

type_synonym 'w esearch_service = "'w \<Rightarrow> esearch_request \<Rightarrow> (exn + search_record) \<times> 'w"
type_synonym 'w esummary_service = "'w \<Rightarrow> esummary_request \<Rightarrow> (exn + summary_record list) \<times> 'w"

section \<open>get_taxon_id\<close>

text \<open>
  \<^verbatim>\<open>
  try:
      with Entrez.esearch(db=ncbi_db, term=f'{taxon_name}[orgn]', retmax=10000) as handle:
          record = Entrez.read(handle)
  except HTTPError:
      return str('Database error, try later...')
  else:
      all_taxaIDs = record['IdList']
  return all_taxaIDs
  \<close>
  The parameter \<^verbatim>\<open>ncbi_idtype\<close> is accepted and never used. The lookup of
  \<^verbatim>\<open>'IdList'\<close> is outside the \<^verbatim>\<open>try\<close>: a missing key raises \<open>KeyError\<close>.
\<close>

definition get_taxon_id ::
  "'w esearch_service \<Rightarrow> 'w \<Rightarrow> string \<Rightarrow> string \<Rightarrow> string \<Rightarrow> (exn + pyval) \<times> 'w" where
  "get_taxon_id esearch w taxon_name ncbi_db ncbi_idtype =
     (case esearch w \<lparr>es_db = ncbi_db, es_term = taxon_name @ ''[orgn]'', es_retmax = 10000\<rparr> of
        (Inl e, w') \<Rightarrow>
          if is_HTTPError e then (Inr (PyStr ''Database error, try later...''), w')
          else (Inl e, w')
      | (Inr record, w') \<Rightarrow>
          (case record ''IdList'' of
             None \<Rightarrow> (Inl (KeyError ''IdList''), w')
           | Some all_taxaIDs \<Rightarrow> (Inr all_taxaIDs, w')))"

section \<open>get_taxonlist_species\<close>

text \<open>Subscription of a dictionary: a missing key raises \<open>KeyError\<close>.\<close>

definition getitem :: "summary_record \<Rightarrow> string \<Rightarrow> exn + string" where
  "getitem record k = (case record k of None \<Rightarrow> Inl (KeyError k) | Some v \<Rightarrow> Inr v)"

text \<open>
  \<^verbatim>\<open>(record['Rank']=='species' and record['Genus'] != '') or record['Rank']=='genus'\<close>
  with Python's short-circuit evaluation: \<^verbatim>\<open>'Genus'\<close> is only looked up when the rank is
  \<^verbatim>\<open>'species'\<close>.
\<close>

definition rank_test :: "summary_record \<Rightarrow> exn + bool" where
  "rank_test record =
     (case getitem record ''Rank'' of
        Inl e \<Rightarrow> Inl e
      | Inr rank \<Rightarrow>
          if rank = ''species'' then
            (case getitem record ''Genus'' of
               Inl e \<Rightarrow> Inl e
             | Inr genus \<Rightarrow> if genus \<noteq> [] then Inr True else Inr (rank = ''genus''))
          else Inr (rank = ''genus''))"

text \<open>
  The \<^verbatim>\<open>else\<close> branch of the \<^verbatim>\<open>try\<close> statement: it runs outside the handler, so a
  \<open>KeyError\<close> raised there leaves the function.
\<close>

definition else_branch :: "summary_record \<Rightarrow> string list \<Rightarrow> exn + string list" where
  "else_branch record species_taxa =
     (case rank_test record of
        Inl e \<Rightarrow> Inl e
      | Inr False \<Rightarrow> Inr species_taxa
      | Inr True \<Rightarrow>
          (case getitem record ''ScientificName'' of
             Inl e \<Rightarrow> Inl e
           | Inr name \<Rightarrow> Inr (species_taxa @ [name])))"

text \<open>
  The loop carries the list \<^verbatim>\<open>species_taxa\<close>, the lines printed so far and the world.
  \<^verbatim>\<open>
  for taxon_id in taxonlist:
      try:
          with Entrez.esummary(db=ncbi_db, id=taxon_id, retmax=10000) as handle:
              record = Entrez.read(handle)[0]
      except IndexError:
          print('New Error. Nemas Problemas!')
      else:
          if ...: species_taxa.append(record["ScientificName"])
  return species_taxa
  \<close>
  An \<open>IndexError\<close> comes from \<^verbatim>\<open>[0]\<close> on an empty response, or from the service call
  itself; both are inside the \<^verbatim>\<open>try\<close>. Any other exception ends the run, and the
  result is that exception: the list accumulated so far is not returned.
\<close>

fun species_loop ::
  "'w esummary_service \<Rightarrow> string \<Rightarrow> string list \<Rightarrow> string list \<Rightarrow> string list \<Rightarrow> 'w
     \<Rightarrow> (exn + string list) \<times> string list \<times> 'w" where
  "species_loop esummary ncbi_db [] species_taxa out w = (Inr species_taxa, out, w)"
| "species_loop esummary ncbi_db (taxon_id # rest) species_taxa out w =
     (case esummary w \<lparr>sm_db = ncbi_db, sm_id = taxon_id, sm_retmax = 10000\<rparr> of
        (Inl e, w') \<Rightarrow>
          if is_IndexError e then
            species_loop esummary ncbi_db rest species_taxa
              (out @ [''New Error. Nemas Problemas!'']) w'
          else (Inl e, out, w')
      | (Inr [], w') \<Rightarrow>
          species_loop esummary ncbi_db rest species_taxa
            (out @ [''New Error. Nemas Problemas!'']) w'
      | (Inr (record # _), w') \<Rightarrow>
          (case else_branch record species_taxa of
             Inl e \<Rightarrow> (Inl e, out, w')
           | Inr species_taxa' \<Rightarrow> species_loop esummary ncbi_db rest species_taxa' out w'))"

definition get_taxonlist_species ::
  "'w esummary_service \<Rightarrow> 'w \<Rightarrow> string list \<Rightarrow> string
     \<Rightarrow> (exn + string list) \<times> string list \<times> 'w" where
  "get_taxonlist_species esummary w taxonlist ncbi_db =
     species_loop esummary ncbi_db taxonlist [] [] w"

section \<open>plot_bar\<close>

subsection \<open>Dataframes\<close>

text \<open>
  A cell of a dataframe is null, a string or a number. A number stands for its value:
  the integer 5 of polars and the float 5.0 that pandas holds after a conversion are the
  same cell. A dataframe, of polars as of pandas, is a list of named columns. Python's
  \<^verbatim>\<open>None\<close> in \<^verbatim>\<open>sort_order\<close> or \<^verbatim>\<open>filter_list\<close> is \<open>Null\<close> as well.
\<close>

datatype cell = Null | Str string | Num int

type_synonym frame = "(string \<times> cell list) list"

subsection \<open>The dataframe libraries\<close>

text \<open>
  polars, pandas and pyarrow are not part of the module. What they decide on their own is
  a parameter of the model:
  \<^item> \<open>group_order\<close>: the order in which \<^verbatim>\<open>group_by\<close> emits the groups, given the distinct
    values of the column. polars promises none, and it differs from call to call.
  \<^item> \<open>to_pandas\<close>: the conversion of a polars frame to pandas. It keeps strings, and it
    turns an integer column that holds a null into 64-bit floats.
  \<^item> \<open>from_pandas\<close>: the conversion back, given the name and the categories of the
    categorical column. It raises when pyarrow cannot take the categories, for instance
    categories of mixed types.
  \<^item> \<open>is_in_error\<close>: the check of \<^verbatim>\<open>is_in\<close>, which raises when the filter values are of
    another type than the column.
\<close>

record libraries =
  group_order :: "cell list \<Rightarrow> cell list"
  to_pandas :: "frame \<Rightarrow> exn + frame"
  from_pandas :: "string \<Rightarrow> cell list \<Rightarrow> frame \<Rightarrow> exn + frame"
  is_in_error :: "cell list \<Rightarrow> frame \<Rightarrow> exn option"

text \<open>The distinct values of a column, each at its first occurrence.\<close>

definition unique :: "'a list \<Rightarrow> 'a list" where
  "unique xs = rev (remdups (rev xs))"

text \<open>
  \<^verbatim>\<open>df.group_by(category).len()\<close>: one row per distinct value of the column, null
  being a value of its own, in the order the library chooses, with the number of rows of
  the group in a column named \<^verbatim>\<open>len\<close>. A column that does not exist raises, and so does
  a category column that is itself named \<^verbatim>\<open>len\<close>.
\<close>

definition group_by_len :: "libraries \<Rightarrow> string \<Rightarrow> frame \<Rightarrow> exn + frame" where
  "group_by_len lib category df =
     (case map_of df category of
        None \<Rightarrow> Inl (ColumnNotFoundError category)
      | Some vals \<Rightarrow>
          if category = ''len'' then Inl (DuplicateError ''len'')
          else Inr [(category, group_order lib (unique vals)),
                    (''len'', map (\<lambda>k. Num (int (count_list vals k)))
                                (group_order lib (unique vals)))])"

definition getitem_col :: "frame \<Rightarrow> string \<Rightarrow> exn + cell list" where
  "getitem_col df c = (case map_of df c of None \<Rightarrow> Inl (KeyError c) | Some vals \<Rightarrow> Inr vals)"

text \<open>
  \<^verbatim>\<open>pd.Categorical(values, categories, ordered=True)\<close>: the categories must hold no
  null and no duplicate; a value that is not among the categories becomes null.
\<close>

definition Categorical :: "cell list \<Rightarrow> cell list \<Rightarrow> exn + cell list" where
  "Categorical vals categories =
     (if Null \<in> set categories then Inl (ValueError ''Categorical categories cannot be null'')
      else if \<not> distinct categories then
        Inl (ValueError ''Categorical categories must be unique'')
      else Inr (map (\<lambda>v. if v \<in> set categories then v else Null) vals))"

text \<open>\<^verbatim>\<open>df[c] = col\<close> of pandas replaces the column where it stands, or appends it.\<close>

definition setitem_col :: "frame \<Rightarrow> string \<Rightarrow> cell list \<Rightarrow> frame" where
  "setitem_col df c col = AList.update c col df"

text \<open>
  \<^verbatim>\<open>df.filter(p(pl.col(c)))\<close> keeps, in every column, the rows whose cell in column
  \<open>c\<close> satisfies \<open>p\<close>.
\<close>

definition filter_rows :: "(cell \<Rightarrow> bool) \<Rightarrow> string \<Rightarrow> frame \<Rightarrow> exn + frame" where
  "filter_rows p c df =
     (case map_of df c of
        None \<Rightarrow> Inl (ColumnNotFoundError c)
      | Some vals \<Rightarrow>
          Inr (map (\<lambda>(name, col). (name, map snd (filter (\<lambda>(v, x). p v) (zip vals col)))) df))"

text \<open>
  \<^verbatim>\<open>df.filter(pl.col(c).is_in(filter_list))\<close>: the library may refuse the filter values;
  otherwise the rows whose cell is one of them are kept.
\<close>

definition filter_is_in :: "libraries \<Rightarrow> cell list \<Rightarrow> string \<Rightarrow> frame \<Rightarrow> exn + frame" where
  "filter_is_in lib filter_list c df =
     (case is_in_error lib filter_list df of
        Some e \<Rightarrow> Inl e
      | None \<Rightarrow> filter_rows (\<lambda>v. v \<in> set filter_list) c df)"

text \<open>\<^verbatim>\<open>df[c].sum()\<close>: nulls count as nothing.\<close>

fun cell_int :: "cell \<Rightarrow> int" where
  "cell_int (Num n) = n"
| "cell_int _ = 0"

definition column_sum :: "frame \<Rightarrow> string \<Rightarrow> exn + int" where
  "column_sum df c =
     (case map_of df c of
        None \<Rightarrow> Inl (ColumnNotFoundError c)
      | Some vals \<Rightarrow> Inr (sum_list (map cell_int vals)))"

subsection \<open>Formatting an integer\<close>

text \<open>The decimal digits that an f-string writes for an integer.\<close>

function str_nat :: "nat \<Rightarrow> string" where
  "str_nat n =
     (if n < 10 then [''0123456789'' ! n]
      else str_nat (n div 10) @ [''0123456789'' ! (n mod 10)])"
  by pat_completeness auto
termination
  by (relation "measure (\<lambda>n. n)") auto

declare str_nat.simps [simp del]

definition str_int :: "int \<Rightarrow> string" where
  "str_int i = (if i < 0 then CHR ''-'' # str_nat (nat (- i)) else str_nat (nat i))"

subsection \<open>The chart\<close>

record chart =
  ch_data :: frame
  ch_mark :: string
  ch_x_field :: string
  ch_x_stack :: string
  ch_x_title :: "string option"
  ch_color_field :: string
  ch_color_sort :: "cell list"
  ch_legend_title :: string
  ch_color_scheme :: string
  ch_order_field :: string
  ch_title :: string

subsection \<open>Objects and references\<close>

text \<open>
  Python passes the dataframe by reference. The heap is the list of the frames that
  exist, a reference is an index into it, and a new object goes to the end. The local
  variable \<^verbatim>\<open>df\<close> of \<^verbatim>\<open>plot_bar\<close> is rebound at every statement; the one statement that
  changes an object in place is the column assignment, and the object it changes is the
  pandas frame that \<^verbatim>\<open>to_pandas\<close> has made.
\<close>

type_synonym heap = "frame list"

definition alloc :: "heap \<Rightarrow> frame \<Rightarrow> heap \<times> nat" where
  "alloc h f = (h @ [f], length h)"

text \<open>
  \<^verbatim>\<open>
  df = df.group_by(category).len()
  df = df.to_pandas()
  df[category] = pd.Categorical(df[category], sort_order, ordered=True)
  df = pl.from_pandas(df)
  df = df.filter(pl.col(category).is_not_null())
  if filter_list is not None:
      df = df.filter(pl.col(category).is_in(filter_list))
  chart = df.plot.bar(x=alt.X("len", stack="normalize"),
                      color=alt.Color(category, sort=alt.Sort(sort_order),
                                      legend=alt.Legend(title=legend_title)
                                     ).scale(scheme="tableau20"),
                      order=alt.Order(f"color_{category}_sort_index:O"),
                     ).properties(title=title)
  chart.encoding.x.title = f"{x_title}, N={df['len'].sum()}"
  return chart
  \<close>
  The result is the heap after the call and the chart, or the exception raised.
\<close>

definition plot_bar ::
  "libraries \<Rightarrow> heap \<Rightarrow> nat \<Rightarrow> string \<Rightarrow> cell list \<Rightarrow> string \<Rightarrow> string \<Rightarrow> string
     \<Rightarrow> cell list option \<Rightarrow> heap \<times> (exn + chart)" where
  "plot_bar lib h df category sort_order title x_title legend_title filter_list =
     (case group_by_len lib category (h ! df) of
        Inl e \<Rightarrow> (h, Inl e)
      | Inr grouped \<Rightarrow>
     (case alloc h grouped of (h1, df1) \<Rightarrow>
     (case to_pandas lib (h1 ! df1) of
        Inl e \<Rightarrow> (h1, Inl e)
      | Inr pandas \<Rightarrow>
     (case alloc h1 pandas of (h2, df2) \<Rightarrow>
     (case getitem_col (h2 ! df2) category of
        Inl e \<Rightarrow> (h2, Inl e)
      | Inr vals \<Rightarrow>
     (case Categorical vals sort_order of
        Inl e \<Rightarrow> (h2, Inl e)
      | Inr cat \<Rightarrow>
     (case h2[df2 := setitem_col (h2 ! df2) category cat] of h3 \<Rightarrow>
     (case from_pandas lib category sort_order (h3 ! df2) of
        Inl e \<Rightarrow> (h3, Inl e)
      | Inr polars \<Rightarrow>
     (case alloc h3 polars of (h4, df4) \<Rightarrow>
     (case filter_rows (\<lambda>v. v \<noteq> Null) category (h4 ! df4) of
        Inl e \<Rightarrow> (h4, Inl e)
      | Inr not_null \<Rightarrow>
     (case alloc h4 not_null of (h5, df5) \<Rightarrow>
     (case (case filter_list of
              None \<Rightarrow> (h5, Inr df5)
            | Some l \<Rightarrow>
                (case filter_is_in lib l category (h5 ! df5) of
                   Inl e \<Rightarrow> (h5, Inl e)
                 | Inr is_in \<Rightarrow> (case alloc h5 is_in of (h6, df6) \<Rightarrow> (h6, Inr df6)))) of
        (h6, Inl e) \<Rightarrow> (h6, Inl e)
      | (h6, Inr df6) \<Rightarrow>
     (case column_sum (h6 ! df6) ''len'' of
        Inl e \<Rightarrow> (h6, Inl e)
      | Inr total_count \<Rightarrow>
          (h6, Inr \<lparr>ch_data = h6 ! df6,
                    ch_mark = ''bar'',
                    ch_x_field = ''len'',
                    ch_x_stack = ''normalize'',
                    ch_x_title = Some (x_title @ '', N='' @ str_int total_count),
                    ch_color_field = category,
                    ch_color_sort = sort_order,
                    ch_legend_title = legend_title,
                    ch_color_scheme = ''tableau20'',
                    ch_order_field = ''color_'' @ category @ ''_sort_index:O'',
                    ch_title = title\<rparr>))))))))))))))"

section \<open>Notions used to state the properties\<close>

subsection \<open>The fetches of a run\<close>

text \<open>
  The answers the service gives when it is asked for the summaries of the identifiers one
  after the other, starting in world \<open>w\<close>: what the loop receives, as long as it goes on.
\<close>

fun fetch_trace ::
  "'w esummary_service \<Rightarrow> string \<Rightarrow> string list \<Rightarrow> 'w \<Rightarrow> (exn + summary_record list) list" where
  "fetch_trace esummary ncbi_db [] w = []"
| "fetch_trace esummary ncbi_db (taxon_id # rest) w =
     (case esummary w \<lparr>sm_db = ncbi_db, sm_id = taxon_id, sm_retmax = 10000\<rparr> of
        (a, w') \<Rightarrow> a # fetch_trace esummary ncbi_db rest w')"

text \<open>The record a fetch binds to \<^verbatim>\<open>record\<close>: the first element of the response.\<close>

fun first_record :: "exn + summary_record list \<Rightarrow> summary_record option" where
  "first_record (Inr (record # _)) = Some record"
| "first_record _ = None"

text \<open>
  The rank predicate in the specification's words: the rank is \<^verbatim>\<open>species\<close> and the genus
  is not empty, or the rank is \<^verbatim>\<open>genus\<close>.
\<close>

definition qualifies :: "summary_record \<Rightarrow> bool" where
  "qualifies record \<longleftrightarrow>
     (record ''Rank'' = Some ''species'' \<and> record ''Genus'' \<noteq> None \<and> record ''Genus'' \<noteq> Some [])
     \<or> record ''Rank'' = Some ''genus''"

definition qualifying_name :: "summary_record \<Rightarrow> string option" where
  "qualifying_name record = (if qualifies record then record ''ScientificName'' else None)"

text \<open>A record that exposes the three fields the function reads.\<close>

definition complete :: "summary_record \<Rightarrow> bool" where
  "complete record \<longleftrightarrow>
     record ''Rank'' \<noteq> None \<and> record ''Genus'' \<noteq> None \<and> record ''ScientificName'' \<noteq> None"

text \<open>A fetch that does not end the run: it is skipped, or its record is complete.\<close>

fun fetch_ok :: "exn + summary_record list \<Rightarrow> bool" where
  "fetch_ok (Inl e) = is_IndexError e"
| "fetch_ok (Inr []) = True"
| "fetch_ok (Inr (record # _)) = complete record"

subsection \<open>Example services\<close>

text \<open>
  A stable summary service that counts its requests. It knows the identifiers A (a species
  with an empty genus field), B (a genus) and C (a species), answers \<^verbatim>\<open>down\<close> with an
  HTTP error and every other identifier with an empty response.
\<close>

definition example_answer :: "esummary_request \<Rightarrow> exn + summary_record list" where
  "example_answer req =
     (if sm_id req = ''A'' then
        Inr [[''Rank'' \<mapsto> ''species'', ''Genus'' \<mapsto> [], ''ScientificName'' \<mapsto> ''Alpha'']]
      else if sm_id req = ''B'' then
        Inr [[''Rank'' \<mapsto> ''genus'', ''Genus'' \<mapsto> [], ''ScientificName'' \<mapsto> ''Beta'']]
      else if sm_id req = ''C'' then
        Inr [[''Rank'' \<mapsto> ''species'', ''Genus'' \<mapsto> ''Gamma'',
              ''ScientificName'' \<mapsto> ''Gamma delta'']]
      else if sm_id req = ''down'' then Inl (HTTPError 502)
      else Inr [])"

definition example_esummary :: "nat esummary_service" where
  "example_esummary n req = (example_answer req, Suc n)"

text \<open>Two search services: one that is down, one that finds two identifiers.\<close>

definition failing_esearch :: "nat esearch_service" where
  "failing_esearch n req = (Inl (HTTPError 503), Suc n)"

definition example_esearch :: "nat esearch_service" where
  "example_esearch n req =
     (Inr [''Count'' \<mapsto> PyStr ''2'', ''IdList'' \<mapsto> PyList [''4472'', ''4479'']], Suc n)"

text \<open>A search service that cannot be reached: the request ends in a \<open>URLError\<close>.\<close>

definition unreachable_esearch :: "nat esearch_service" where
  "unreachable_esearch n req = (Inl (URLError ''Name or service not known''), Suc n)"

subsection \<open>The aggregate of a chart\<close>






subsection \<open>Reading a decimal numeral\<close>



subsection \<open>Example libraries and datasets\<close>

text \<open>
  Libraries as they behave on string columns: the conversions keep every cell and
  \<^verbatim>\<open>is_in\<close> takes the filter. The groups come in the reverse of their first occurrence,
  one of the orders polars may choose.
\<close>

definition example_lib :: libraries where
  "example_lib =
     \<lparr>group_order = rev,
      to_pandas = Inr,
      from_pandas = (\<lambda>category categories df. Inr df),
      is_in_error = (\<lambda>filter_list df. None)\<rparr>"

text \<open>
  The example dataset: five rows, with the categories x, x, y, z and null in the column
  \<^verbatim>\<open>form\<close>. A second one has twelve rows of x, one of y and one null.
\<close>

definition example_df :: frame where
  "example_df =
     [(''site'', [Num 1, Num 2, Num 3, Num 4, Num 5]),
      (''form'', [Str ''x'', Str ''x'', Str ''y'', Str ''z'', Null])]"









section \<open>Properties of get_taxonlist_species and get_taxon_id\<close>

lemma else_branch_complete:
  "complete record \<Longrightarrow>
   else_branch record acc = Inr (acc @ (case qualifying_name record of None \<Rightarrow> [] | Some n \<Rightarrow> [n]))"
  by (auto simp: complete_def else_branch_def rank_test_def getitem_def qualifying_name_def
        qualifies_def split: option.splits)

lemma else_branch_Inr:
  "else_branch record acc = Inr acc' \<Longrightarrow>
   acc' = acc @ (case qualifying_name record of None \<Rightarrow> [] | Some n \<Rightarrow> [n])"
  by (auto simp: else_branch_def rank_test_def getitem_def qualifying_name_def
        qualifies_def split: option.splits if_splits sum.splits bool.splits)

lemma species_loop_ok:
  "\<forall>a \<in> set (fetch_trace esummary ncbi_db ids w). fetch_ok a \<Longrightarrow>
   fst (species_loop esummary ncbi_db ids acc out w) =
     Inr (acc @ List.map_filter qualifying_name
                 (List.map_filter first_record (fetch_trace esummary ncbi_db ids w)))"
proof (induction ids arbitrary: acc out w)
  case Nil
  then show ?case by simp
next
  case (Cons i ids)
  obtain a w' where step: "esummary w \<lparr>sm_db = ncbi_db, sm_id = i, sm_retmax = 10000\<rparr> = (a, w')"
    by (cases "esummary w \<lparr>sm_db = ncbi_db, sm_id = i, sm_retmax = 10000\<rparr>")
  from Cons.prems step have ok: "fetch_ok a"
    and rest: "\<forall>a \<in> set (fetch_trace esummary ncbi_db ids w'). fetch_ok a"
    by simp_all
  note IH = Cons.IH [OF rest]
  show ?case
  proof (cases a)
    case (Inl e)
    with ok step IH show ?thesis by simp
  next
    case (Inr resp)
    show ?thesis
    proof (cases resp)
      case Nil
      with Inr step IH show ?thesis by simp
    next
      case (Cons rec more)
      with Inr ok have "complete rec" by simp
      from else_branch_complete [OF this] Inr Cons step IH show ?thesis
        by (simp split: option.splits)
    qed
  qed
qed

lemma species_loop_Inr:
  "fst (species_loop esummary ncbi_db ids acc out w) = Inr names \<Longrightarrow>
   \<exists>new. names = acc @ new \<and> length new \<le> length ids \<and>
     (\<forall>n \<in> set new. \<exists>r \<in> set (List.map_filter first_record (fetch_trace esummary ncbi_db ids w)).
        qualifies r \<and> r ''ScientificName'' = Some n)"
proof (induction ids arbitrary: acc out w)
  case Nil
  then show ?case by simp
next
  case (Cons i ids)
  obtain a w' where step: "esummary w \<lparr>sm_db = ncbi_db, sm_id = i, sm_retmax = 10000\<rparr> = (a, w')"
    by (cases "esummary w \<lparr>sm_db = ncbi_db, sm_id = i, sm_retmax = 10000\<rparr>")
  show ?case
  proof (cases "first_record a")
    case None
    then have skip: "fst (species_loop esummary ncbi_db ids acc
        (out @ [''New Error. Nemas Problemas!'']) w') = Inr names"
      using Cons.prems step
      by (cases a rule: first_record.cases) (auto split: if_splits)
    from Cons.IH [OF skip] None step show ?thesis
      by auto
  next
    case (Some rec)
    then obtain more where a: "a = Inr (rec # more)"
      by (cases a rule: first_record.cases) auto
    with Cons.prems step obtain acc' where eb: "else_branch rec acc = Inr acc'"
      and run: "fst (species_loop esummary ncbi_db ids acc' out w') = Inr names"
      by (auto split: sum.splits)
    from Cons.IH [OF run] obtain new where new: "names = acc' @ new" "length new \<le> length ids"
      "\<forall>n \<in> set new. \<exists>r \<in> set (List.map_filter first_record (fetch_trace esummary ncbi_db ids w')).
        qualifies r \<and> r ''ScientificName'' = Some n"
      by blast
    from else_branch_Inr [OF eb]
    have acc': "acc' = acc @ (case qualifying_name rec of None \<Rightarrow> [] | Some n \<Rightarrow> [n])" .
    show ?thesis
    proof (cases "qualifying_name rec")
      case None
      with acc' new a step show ?thesis by auto
    next
      case (Some n)
      then have "qualifies rec" "rec ''ScientificName'' = Some n"
        by (auto simp: qualifying_name_def split: if_splits)
      with Some acc' new a step show ?thesis
        by (intro exI [of _ "n # new"]) auto
    qed
  qed
qed

lemma species_loop_stable:
  "\<forall>w req. fst (esummary w req) = answer req \<Longrightarrow>
   fst (species_loop esummary ncbi_db ids acc out w1) =
     fst (species_loop esummary ncbi_db ids acc out w2) \<and>
   fst (snd (species_loop esummary ncbi_db ids acc out w1)) =
     fst (snd (species_loop esummary ncbi_db ids acc out w2))"
proof (induction ids arbitrary: acc out w1 w2)
  case Nil
  then show ?case by simp
next
  case (Cons i ids)
  let ?req = "\<lparr>sm_db = ncbi_db, sm_id = i, sm_retmax = 10000\<rparr>"
  obtain a1 w1' where s1: "esummary w1 ?req = (a1, w1')" by (cases "esummary w1 ?req")
  obtain a2 w2' where s2: "esummary w2 ?req = (a2, w2')" by (cases "esummary w2 ?req")
  from Cons.prems s1 s2 have same: "a2 = a1"
    by (metis fst_conv)
  note IH = Cons.IH [OF Cons.prems]
  show ?case
    using s1 s2 same IH
    by (auto split: sum.splits list.splits)
qed

lemma species_loop_append:
  "species_loop esummary ncbi_db (xs @ ys) acc out w =
     (case species_loop esummary ncbi_db xs acc out w of
        (Inr acc1, out1, w1) \<Rightarrow> species_loop esummary ncbi_db ys acc1 out1 w1
      | (Inl e, out1, w1) \<Rightarrow> (Inl e, out1, w1))"
  by (induction xs arbitrary: acc out w) (auto split: sum.splits list.splits prod.splits)

lemma else_branch_prefix:
  "else_branch rec (p @ acc) =
     (case else_branch rec acc of Inl e \<Rightarrow> Inl e | Inr acc' \<Rightarrow> Inr (p @ acc'))"
  by (simp add: else_branch_def split: sum.splits bool.splits)

lemma species_loop_prefix:
  "species_loop esummary ncbi_db ids (p @ acc) (q @ out) w =
     (case species_loop esummary ncbi_db ids acc out w of
        (Inr names, out', w') \<Rightarrow> (Inr (p @ names), q @ out', w')
      | (Inl e, out', w') \<Rightarrow> (Inl e, q @ out', w'))"
proof (induction ids arbitrary: acc out w)
  case Nil
  show ?case by simp
next
  case (Cons i ids)
  let ?req = "\<lparr>sm_db = ncbi_db, sm_id = i, sm_retmax = 10000\<rparr>"
  obtain a w' where step: "esummary w ?req = (a, w')" by (cases "esummary w ?req")
  have skip: "species_loop esummary ncbi_db ids (p @ acc)
       ((q @ out) @ [''New Error. Nemas Problemas!'']) w' =
     (case species_loop esummary ncbi_db ids acc (out @ [''New Error. Nemas Problemas!'']) w' of
        (Inr names, out', w') \<Rightarrow> (Inr (p @ names), q @ out', w')
      | (Inl e, out', w') \<Rightarrow> (Inl e, q @ out', w'))"
    using Cons.IH [of acc "out @ [''New Error. Nemas Problemas!'']" w'] by simp
  show ?case
  proof (cases a)
    case (Inl e)
    with step skip show ?thesis by simp
  next
    case (Inr resp)
    show ?thesis
    proof (cases resp)
      case Nil
      with Inr step skip show ?thesis by simp
    next
      case (Cons rec more)
      show ?thesis
      proof (cases "else_branch rec acc")
        case (Inl e)
        with Inr Cons step show ?thesis by (simp add: else_branch_prefix)
      next
        case (Inr acc')
        with \<open>a = Inr resp\<close> Cons step Cons.IH [of acc' out w'] show ?thesis
          by (simp add: else_branch_prefix)
      qed
    qed
  qed
qed

lemma species_loop_acc:
  "species_loop esummary ncbi_db ids acc out w =
     (case species_loop esummary ncbi_db ids [] [] w of
        (Inr names, out', w') \<Rightarrow> (Inr (acc @ names), out @ out', w')
      | (Inl e, out', w') \<Rightarrow> (Inl e, out @ out', w'))"
  using species_loop_prefix [of esummary ncbi_db ids acc "[]" out "[]" w] by simp

text \<open>
  Claim C1. When every summary fetch of the run either comes back empty (or with an
  \<open>IndexError\<close>) or brings a record that has the three fields, \<^verbatim>\<open>get_taxonlist_species\<close>
  returns the scientific names of exactly the fetched records whose rank is \<^verbatim>\<open>species\<close>
  with a non-empty genus, or whose rank is \<^verbatim>\<open>genus\<close>, in the order of the identifiers
  that produced them. The witness is the example of identifiers A, B, C: A is a species with
  empty genus, B a genus, C a species with a genus, and the result is the names of B and C.
\<close>

theorem get_taxonlist_species_names:
  assumes "list_all fetch_ok (fetch_trace esummary ncbi_db taxonlist w)"
  shows "fst (get_taxonlist_species esummary w taxonlist ncbi_db) =
     Inr (List.map_filter qualifying_name
            (List.map_filter first_record (fetch_trace esummary ncbi_db taxonlist w)))"
proof -
  from assms have "\<forall>a \<in> set (fetch_trace esummary ncbi_db taxonlist w). fetch_ok a"
    by (simp add: list_all_iff)
  from species_loop_ok [OF this, of "[]" "[]"] show ?thesis
    by (simp add: get_taxonlist_species_def)
qed

theorem get_taxonlist_species_names_witness:
  "list_all fetch_ok (fetch_trace example_esummary ''taxonomy'' [''A'', ''B'', ''C''] 0) \<and>
   fst (get_taxonlist_species example_esummary 0 [''A'', ''B'', ''C''] ''taxonomy'') =
     Inr [''Beta'', ''Gamma delta'']"
proof -
  have h: "list_all fetch_ok (fetch_trace example_esummary ''taxonomy'' [''A'', ''B'', ''C''] 0)"
    by (simp add: example_esummary_def example_answer_def complete_def)
  from get_taxonlist_species_names [OF h] h show ?thesis
    by (simp add: example_esummary_def example_answer_def qualifying_name_def qualifies_def)
qed

text \<open>
  Claim C5. When the summary fetch for one identifier yields an empty response, the
  \<open>IndexError\<close> of its first element is caught: the diagnostic line is printed, no name
  is appended for that identifier, and the run goes on with the identifiers after it, whose
  names follow those collected before.
\<close>

theorem get_taxonlist_species_skips_empty:
  assumes "get_taxonlist_species esummary w pre ncbi_db = (Inr names1, out1, w1)"
    and "esummary w1 \<lparr>sm_db = ncbi_db, sm_id = taxon_id, sm_retmax = 10000\<rparr> = (Inr [], w2)"
  shows "get_taxonlist_species esummary w (pre @ taxon_id # post) ncbi_db =
     (case get_taxonlist_species esummary w2 post ncbi_db of
        (Inr names3, out3, w3) \<Rightarrow>
          (Inr (names1 @ names3), out1 @ ''New Error. Nemas Problemas!'' # out3, w3)
      | (Inl e, out3, w3) \<Rightarrow> (Inl e, out1 @ ''New Error. Nemas Problemas!'' # out3, w3))"
proof -
  have "species_loop esummary ncbi_db (pre @ taxon_id # post) [] [] w =
      species_loop esummary ncbi_db post names1 (out1 @ [''New Error. Nemas Problemas!'']) w2"
    using assms by (simp add: species_loop_append get_taxonlist_species_def)
  also have "\<dots> = (case species_loop esummary ncbi_db post [] [] w2 of
        (Inr names3, out3, w3) \<Rightarrow>
          (Inr (names1 @ names3), out1 @ ''New Error. Nemas Problemas!'' # out3, w3)
      | (Inl e, out3, w3) \<Rightarrow> (Inl e, out1 @ ''New Error. Nemas Problemas!'' # out3, w3))"
    using species_loop_acc [of esummary ncbi_db post names1
        "out1 @ [''New Error. Nemas Problemas!'']" w2]
    by (simp split: prod.splits sum.splits)
  finally show ?thesis
    by (simp add: get_taxonlist_species_def)
qed

theorem get_taxonlist_species_skips_empty_witness:
  "get_taxonlist_species example_esummary 0 [''B''] ''taxonomy'' = (Inr [''Beta''], [], 1) \<and>
   example_esummary 1 \<lparr>sm_db = ''taxonomy'', sm_id = ''unknown'', sm_retmax = 10000\<rparr> = (Inr [], 2) \<and>
   get_taxonlist_species example_esummary 0 ([''B''] @ ''unknown'' # [''C'']) ''taxonomy'' =
     (Inr [''Beta'', ''Gamma delta''], [''New Error. Nemas Problemas!''], 3)"
proof -
  have h1: "get_taxonlist_species example_esummary 0 [''B''] ''taxonomy'' = (Inr [''Beta''], [], 1)"
    by (simp add: get_taxonlist_species_def example_esummary_def example_answer_def
          else_branch_def rank_test_def getitem_def)
  have h2: "example_esummary 1 \<lparr>sm_db = ''taxonomy'', sm_id = ''unknown'', sm_retmax = 10000\<rparr>
      = (Inr [], 2)"
    by (simp add: example_esummary_def example_answer_def)
  have post: "get_taxonlist_species example_esummary 2 [''C''] ''taxonomy'' =
      (Inr [''Gamma delta''], [], 3)"
    by (simp add: get_taxonlist_species_def example_esummary_def example_answer_def
          else_branch_def rank_test_def getitem_def)
  from get_taxonlist_species_skips_empty [OF h1 h2, of "[''C'']"] h1 h2 post show ?thesis
    by simp
qed

text \<open>
  Claim C6. An \<open>HTTPError\<close> raised by the summary fetch of one identifier is not caught:
  it is the outcome of the whole call, whatever names the identifiers before it had
  contributed, and no later identifier is fetched.
\<close>

theorem get_taxonlist_species_HTTPError_propagates:
  assumes "get_taxonlist_species esummary w pre ncbi_db = (Inr names1, out1, w1)"
    and "esummary w1 \<lparr>sm_db = ncbi_db, sm_id = taxon_id, sm_retmax = 10000\<rparr>
           = (Inl (HTTPError code), w2)"
  shows "get_taxonlist_species esummary w (pre @ taxon_id # post) ncbi_db =
     (Inl (HTTPError code), out1, w2)"
  using assms by (simp add: species_loop_append get_taxonlist_species_def)

theorem get_taxonlist_species_HTTPError_propagates_witness:
  "get_taxonlist_species example_esummary 0 [''B''] ''taxonomy'' = (Inr [''Beta''], [], 1) \<and>
   example_esummary 1 \<lparr>sm_db = ''taxonomy'', sm_id = ''down'', sm_retmax = 10000\<rparr>
     = (Inl (HTTPError 502), 2) \<and>
   get_taxonlist_species example_esummary 0 ([''B''] @ ''down'' # [''C'']) ''taxonomy'' =
     (Inl (HTTPError 502), [], 2)"
proof -
  have h1: "get_taxonlist_species example_esummary 0 [''B''] ''taxonomy'' = (Inr [''Beta''], [], 1)"
    by (simp add: get_taxonlist_species_def example_esummary_def example_answer_def
          else_branch_def rank_test_def getitem_def)
  have h2: "example_esummary 1 \<lparr>sm_db = ''taxonomy'', sm_id = ''down'', sm_retmax = 10000\<rparr>
      = (Inl (HTTPError 502), 2)"
    by (simp add: example_esummary_def example_answer_def)
  from get_taxonlist_species_HTTPError_propagates [OF h1 h2, of "[''C'']"] h1 h2 show ?thesis
    by simp
qed

text \<open>
  Claim C8. A list returned by \<^verbatim>\<open>get_taxonlist_species\<close> is no longer than the list of
  identifiers, and each of its names is the scientific name of a fetched record that
  satisfies the rank predicate.
\<close>

theorem get_taxonlist_species_bounded:
  assumes "fst (get_taxonlist_species esummary w taxonlist ncbi_db) = Inr names"
  shows "length names \<le> length taxonlist \<and>
     (\<forall>n \<in> set names.
        \<exists>r \<in> set (List.map_filter first_record (fetch_trace esummary ncbi_db taxonlist w)).
          qualifies r \<and> r ''ScientificName'' = Some n)"
  using species_loop_Inr [of esummary ncbi_db taxonlist "[]" "[]" w names] assms
  by (auto simp: get_taxonlist_species_def)

theorem get_taxonlist_species_bounded_witness:
  "fst (get_taxonlist_species example_esummary 0 [''A'', ''B'', ''C''] ''taxonomy'')
     = Inr [''Beta'', ''Gamma delta''] \<and>
   length [''Beta'', ''Gamma delta''] \<le> length [''A'', ''B'', ''C''] \<and>
   (\<exists>r \<in> set (List.map_filter first_record
                 (fetch_trace example_esummary ''taxonomy'' [''A'', ''B'', ''C''] 0)).
      qualifies r \<and> r ''ScientificName'' = Some ''Beta'') \<and>
   (\<exists>r \<in> set (List.map_filter first_record
                 (fetch_trace example_esummary ''taxonomy'' [''A'', ''B'', ''C''] 0)).
      qualifies r \<and> r ''ScientificName'' = Some ''Gamma delta'')"
proof -
  have h: "fst (get_taxonlist_species example_esummary 0 [''A'', ''B'', ''C''] ''taxonomy'')
      = Inr [''Beta'', ''Gamma delta'']"
    by (simp add: get_taxonlist_species_def example_esummary_def example_answer_def
          else_branch_def rank_test_def getitem_def)
  from get_taxonlist_species_bounded [OF h] h show ?thesis
    by simp
qed

text \<open>
  Claim C9. With a stable service, one whose answer to a request does not depend on the
  state the world is in, a second run on the same identifiers, started in the world the
  first run has left, has the same outcome and prints the same lines as the first.
\<close>

theorem get_taxonlist_species_idempotent:
  assumes "\<forall>w req. fst (esummary w req) = answer req"
    and "get_taxonlist_species esummary w taxonlist ncbi_db = (r1, out1, w1)"
    and "get_taxonlist_species esummary w1 taxonlist ncbi_db = (r2, out2, w2)"
  shows "r2 = r1 \<and> out2 = out1"
  using species_loop_stable [OF assms(1), of ncbi_db taxonlist "[]" "[]" w w1] assms(2,3)
  by (simp add: get_taxonlist_species_def)

theorem get_taxonlist_species_idempotent_witness:
  "(\<forall>w req. fst (example_esummary w req) = example_answer req) \<and>
   get_taxonlist_species example_esummary 0 [''A'', ''B'', ''C''] ''taxonomy''
     = (Inr [''Beta'', ''Gamma delta''], [], 3) \<and>
   get_taxonlist_species example_esummary 3 [''A'', ''B'', ''C''] ''taxonomy''
     = (Inr [''Beta'', ''Gamma delta''], [], 6)"
proof -
  have h0: "\<forall>w req. fst (example_esummary w req) = example_answer req"
    by (simp add: example_esummary_def)
  have h1: "get_taxonlist_species example_esummary 0 [''A'', ''B'', ''C''] ''taxonomy''
      = (Inr [''Beta'', ''Gamma delta''], [], 3)"
    by (simp add: get_taxonlist_species_def example_esummary_def example_answer_def
          else_branch_def rank_test_def getitem_def)
  obtain r2 out2 w2 where h2:
    "get_taxonlist_species example_esummary 3 [''A'', ''B'', ''C''] ''taxonomy'' = (r2, out2, w2)"
    by (cases "get_taxonlist_species example_esummary 3 [''A'', ''B'', ''C''] ''taxonomy''")
  have w2: "w2 = 6"
    using h2 by (simp add: get_taxonlist_species_def example_esummary_def example_answer_def
          else_branch_def rank_test_def getitem_def)
  from get_taxonlist_species_idempotent [OF h0 h1 h2] h0 h1 h2 w2 show ?thesis
    by simp
qed

text \<open>
  Claim C2, amended. When the search request raises an \<open>HTTPError\<close>, whatever its status
  code, \<^verbatim>\<open>get_taxon_id\<close> does not raise: it returns the string
  \<^verbatim>\<open>Database error, try later...\<close>, and the world is the one left by that single request,
  so nothing is tried again. The handler names \<open>HTTPError\<close> only: as the claim was
  written, for any transport error, it fails on a \<open>URLError\<close>, which leaves the function.
\<close>

theorem get_taxon_id_HTTPError:
  assumes "esearch w \<lparr>es_db = ncbi_db, es_term = taxon_name @ ''[orgn]'', es_retmax = 10000\<rparr>
             = (Inl (HTTPError code), w')"
  shows "get_taxon_id esearch w taxon_name ncbi_db ncbi_idtype =
     (Inr (PyStr ''Database error, try later...''), w')"
  using assms by (simp add: get_taxon_id_def)

theorem get_taxon_id_HTTPError_witness:
  "failing_esearch 0 \<lparr>es_db = ''taxonomy'', es_term = ''Elodea'' @ ''[orgn]'', es_retmax = 10000\<rparr>
     = (Inl (HTTPError 503), 1) \<and>
   get_taxon_id failing_esearch 0 ''Elodea'' ''taxonomy'' ''acc'' =
     (Inr (PyStr ''Database error, try later...''), 1)"
proof -
  have h: "failing_esearch 0
      \<lparr>es_db = ''taxonomy'', es_term = ''Elodea'' @ ''[orgn]'', es_retmax = 10000\<rparr>
      = (Inl (HTTPError 503), 1)"
    by (simp add: failing_esearch_def)
  from get_taxon_id_HTTPError
      [where esearch = failing_esearch and w = 0 and ncbi_db = "''taxonomy''"
         and taxon_name = "''Elodea''" and code = 503 and w' = 1 and ncbi_idtype = "''acc''"]
    h
  show ?thesis by simp
qed

theorem get_taxon_id_URLError_counterexample:
  "fst (unreachable_esearch 0
          \<lparr>es_db = ''taxonomy'', es_term = ''Elodea'' @ ''[orgn]'', es_retmax = 10000\<rparr>)
     = Inl (URLError ''Name or service not known'') \<and>
   get_taxon_id unreachable_esearch 0 ''Elodea'' ''taxonomy'' ''acc''
     = (Inl (URLError ''Name or service not known''), 1) \<and>
   fst (get_taxon_id unreachable_esearch 0 ''Elodea'' ''taxonomy'' ''acc'')
     \<noteq> Inr (PyStr ''Database error, try later...'')"
  by (simp add: get_taxon_id_def unreachable_esearch_def)

text \<open>
  Claim C7. When the search request comes back with a record whose \<^verbatim>\<open>IdList\<close> is a list
  of identifiers, \<^verbatim>\<open>get_taxon_id\<close> returns that list as it is, empty or not, and the
  result is not the error string.
\<close>

theorem get_taxon_id_IdList:
  assumes "esearch w \<lparr>es_db = ncbi_db, es_term = taxon_name @ ''[orgn]'', es_retmax = 10000\<rparr>
             = (Inr record, w')"
    and "record ''IdList'' = Some (PyList ids)"
  shows "get_taxon_id esearch w taxon_name ncbi_db ncbi_idtype = (Inr (PyList ids), w') \<and>
     fst (get_taxon_id esearch w taxon_name ncbi_db ncbi_idtype)
       \<noteq> Inr (PyStr ''Database error, try later...'')"
  using assms by (simp add: get_taxon_id_def)

theorem get_taxon_id_IdList_witness:
  "get_taxon_id example_esearch 0 ''Elodea'' ''taxonomy'' ''acc''
     = (Inr (PyList [''4472'', ''4479'']), 1)"
proof -
  have h: "example_esearch 0
      \<lparr>es_db = ''taxonomy'', es_term = ''Elodea'' @ ''[orgn]'', es_retmax = 10000\<rparr>
      = (Inr [''Count'' \<mapsto> PyStr ''2'', ''IdList'' \<mapsto> PyList [''4472'', ''4479'']], 1)"
    by (simp add: example_esearch_def)
  from get_taxon_id_IdList
      [where esearch = example_esearch and w = 0 and ncbi_db = "''taxonomy''"
         and taxon_name = "''Elodea''" and w' = 1 and ids = "[''4472'', ''4479'']"
         and ncbi_idtype = "''acc''", OF h]
  show ?thesis by simp
qed

text \<open>
  The handler of \<^verbatim>\<open>get_taxon_id\<close> is for the class \<open>HTTPError\<close> only: any other
  exception of the request leaves the function.
\<close>

lemma get_taxon_id_other_exn:
  assumes "esearch w \<lparr>es_db = ncbi_db, es_term = taxon_name @ ''[orgn]'', es_retmax = 10000\<rparr>
             = (Inl e, w')"
    and "\<not> is_HTTPError e"
  shows "get_taxon_id esearch w taxon_name ncbi_db ncbi_idtype = (Inl e, w')"
  using assms by (simp add: get_taxon_id_def)

section \<open>Properties of plot_bar\<close>

lemma set_unique: "set (unique xs) = set xs"
  by (simp add: unique_def)

lemma distinct_unique: "distinct (unique xs)"
  by (simp add: unique_def)
























lemma plot_bar_heap:
  "a < length h \<Longrightarrow>
   fst (plot_bar lib h df category sort_order title x_title legend_title filter_list) ! a = h ! a"
  by (auto simp: plot_bar_def alloc_def nth_append
        split: sum.splits option.splits prod.splits)






text \<open>
  Claim C10. Whatever the arguments and the libraries, and whether or not the call raises,
  the frame the caller passed to \<^verbatim>\<open>plot_bar\<close> is the same after the call, and so is every
  other object that existed before it: the call only adds objects, and the one it changes
  in place is one it has made.
\<close>

theorem plot_bar_argument_unchanged:
  assumes "df < length h"
  shows "fst (plot_bar lib h df category sort_order title x_title legend_title filter_list) ! df
           = h ! df \<and>
         take (length h)
           (fst (plot_bar lib h df category sort_order title x_title legend_title filter_list))
           = h"
proof -
  let ?h' = "fst (plot_bar lib h df category sort_order title x_title legend_title filter_list)"
  have same: "?h' ! a = h ! a" if "a < length h" for a
    using that by (rule plot_bar_heap)
  have len: "length h \<le> length ?h'"
    by (auto simp: plot_bar_def alloc_def split: sum.splits option.splits prod.splits)
  have "take (length h) ?h' = h"
    by (rule nth_equalityI) (use len same in auto)
  with same [OF assms] show ?thesis by simp
qed

theorem plot_bar_argument_unchanged_witness:
  "(0::nat) < length [example_df] \<and>
   fst (plot_bar example_lib [example_df] 0 ''form'' [Str ''x'', Str ''y''] ''Growth forms''
          ''share'' ''form'' (Some [Str ''x''])) ! 0 = example_df"
proof -
  have h1: "(0::nat) < length [example_df]" by simp
  from plot_bar_argument_unchanged [OF h1] h1 show ?thesis
    by simp
qed

end
